theory Spec2Isabelle
  imports Complex_Main
begin

section \<open>JavaScript values and operators used by the layout code\<close>

text \<open>
  The scalar fields of a layout are JavaScript numbers that may also be \<open>undefined\<close>
  or \<open>null\<close> at run time. Finite numbers are modelled by rationals (all arithmetic of the
  program is \<open>-\<close>, \<open>/ 2\<close>, \<open>Math.min\<close> and \<open>Math.max\<close>); \<open>NaN\<close> is a value of its own.
  Rounding of IEEE doubles and the infinities are outside this model.
\<close>

datatype jsval = JUndefined | JNull | JNaN | JNum rat

text \<open>Truthiness, as used by \<open>||\<close>, \<open>!\<close> and \<open>? :\<close>.\<close>

fun truthy :: "jsval \<Rightarrow> bool" where
  "truthy (JNum r) = (r \<noteq> 0)"
| "truthy _ = False"

text \<open>\<open>a || b\<close> on values.\<close>

definition js_or :: "jsval \<Rightarrow> jsval \<Rightarrow> jsval" where
  "js_or a b = (if truthy a then a else b)"

text \<open>\<open>ToNumber\<close>: \<open>undefined\<close> becomes \<open>NaN\<close>, \<open>null\<close> becomes \<open>0\<close>; \<open>None\<close> stands for \<open>NaN\<close>.\<close>

fun to_number :: "jsval \<Rightarrow> rat option" where
  "to_number JUndefined = None"
| "to_number JNull = Some 0"
| "to_number JNaN = None"
| "to_number (JNum r) = Some r"

definition arith2 :: "(rat \<Rightarrow> rat \<Rightarrow> rat) \<Rightarrow> jsval \<Rightarrow> jsval \<Rightarrow> jsval" where
  "arith2 f a b =
     (case to_number a of
        None \<Rightarrow> JNaN
      | Some p \<Rightarrow> (case to_number b of None \<Rightarrow> JNaN | Some q \<Rightarrow> JNum (f p q)))"

definition Math_max :: "jsval \<Rightarrow> jsval \<Rightarrow> jsval" where
  "Math_max = arith2 max"

definition Math_min :: "jsval \<Rightarrow> jsval \<Rightarrow> jsval" where
  "Math_min = arith2 min"

definition js_sub :: "jsval \<Rightarrow> jsval \<Rightarrow> jsval" where
  "js_sub = arith2 (\<lambda>p q. p - q)"

text \<open>\<open>a / 2\<close>; the divisor is the literal 2, so no division by zero arises.\<close>

definition js_half :: "jsval \<Rightarrow> jsval" where
  "js_half a = (case to_number a of None \<Rightarrow> JNaN | Some p \<Rightarrow> JNum (p / 2))"

text \<open>\<open>a > b\<close> on non-string primitives: false as soon as one side is \<open>NaN\<close>.\<close>

definition js_gt :: "jsval \<Rightarrow> jsval \<Rightarrow> bool" where
  "js_gt a b =
     (case to_number a of
        None \<Rightarrow> False
      | Some p \<Rightarrow> (case to_number b of None \<Rightarrow> False | Some q \<Rightarrow> q < p))"

section \<open>Data model\<close>

text \<open>
  Modelled from the spec: the type declarations \<open>DimensionType\<close>, \<open>PositionType\<close>,
  \<open>LayoutType\<close>, \<open>StateType\<close>, \<open>StatusEnum\<close> and \<open>ApplicationManagerApplication\<close> are
  imported from \<open>./constants\<close>, which is not among the sources. Their shapes follow the
  spec's data model. A key of an object is either absent (\<open>None\<close>) or holds a value
  (\<open>Some v\<close>, where \<open>v\<close> may itself be \<open>undefined\<close> or \<open>null\<close>).
\<close>

record dimension =
  height :: "jsval option"
  width :: "jsval option"

record position =
  x :: "jsval option"
  y :: "jsval option"
  z :: "jsval option"

record layout =
  dimension :: "dimension option"
  position :: "position option"

text \<open>Reading a property: an absent key reads as \<open>undefined\<close>.\<close>

definition rd :: "jsval option \<Rightarrow> jsval" where
  "rd f = (case f of None \<Rightarrow> JUndefined | Some v \<Rightarrow> v)"

text \<open>Optional chaining \<open>obj?.key\<close> on an object that may be missing.\<close>

definition opt_rd :: "('a \<Rightarrow> jsval option) \<Rightarrow> 'a option \<Rightarrow> jsval" where
  "opt_rd sel obj = (case obj of None \<Rightarrow> JUndefined | Some o' \<Rightarrow> rd (sel o'))"

section \<open>Layout geometry\<close>

definition APPLICATION_PADDING :: rat where
  "APPLICATION_PADDING = 16"

definition minimumLayout :: layout where
  "minimumLayout =
     \<lparr>dimension = Some \<lparr>height = Some (JNum 240), width = Some (JNum 300)\<rparr>,
      position = Some \<lparr>x = Some (JNum 0), y = Some (JNum 0), z = Some (JNum 100)\<rparr>\<rparr>"

text \<open>
  The host environment: the global \<open>window\<close> is not declared (server side), is declared
  but holds \<open>undefined\<close>, or is a browser window with its \<open>innerHeight\<close> and
  \<open>innerWidth\<close>.
\<close>

datatype host = WindowUndeclared | WindowUndefined | Window rat rat

datatype error = ReferenceError

text \<open>\<open>typeof window !== 'undefined'\<close>\<close>

fun window_defined :: "host \<Rightarrow> bool" where
  "window_defined (Window h w) = True"
| "window_defined _ = False"

text \<open>
  \<open>window?.innerHeight\<close> and \<open>window?.innerWidth\<close>: evaluating an undeclared identifier
  throws, optional chaining only guards a declared \<open>window\<close> holding \<open>undefined\<close>.
\<close>

fun window_innerHeight :: "host \<Rightarrow> error + jsval" where
  "window_innerHeight WindowUndeclared = Inl ReferenceError"
| "window_innerHeight WindowUndefined = Inr JUndefined"
| "window_innerHeight (Window h w) = Inr (JNum h)"

fun window_innerWidth :: "host \<Rightarrow> error + jsval" where
  "window_innerWidth WindowUndeclared = Inl ReferenceError"
| "window_innerWidth WindowUndefined = Inr JUndefined"
| "window_innerWidth (Window h w) = Inr (JNum w)"

text \<open>
  \<open>buildDefaultLayout\<close>. The argument is \<open>None\<close> when the caller passes nothing, and the
  default parameter \<open>{height: null, width: null}\<close> is used. The conditional expression
  \<open>p || typeof window !== 'undefined' ? window?.innerHeight : 1200\<close> parses as
  \<open>(p || typeof window !== 'undefined') ? window?.innerHeight : 1200\<close>.
\<close>

definition buildDefaultLayout :: "host \<Rightarrow> dimension option \<Rightarrow> error + layout" where
  "buildDefaultLayout env arg =
     (let vp = (case arg of None \<Rightarrow> \<lparr>height = Some JNull, width = Some JNull\<rparr> | Some v \<Rightarrow> v);
          totalHeightProp = rd (height vp);
          totalWidthProp = rd (width vp)
      in case (if truthy totalHeightProp \<or> window_defined env
               then window_innerHeight env else Inr (JNum 1200)) of
           Inl e \<Rightarrow> Inl e
         | Inr totalHeight \<Rightarrow>
          (case (if truthy totalWidthProp \<or> window_defined env
                 then window_innerWidth env else Inr (JNum 1500)) of
             Inl e \<Rightarrow> Inl e
           | Inr totalWidth \<Rightarrow>
              (let h = js_sub (Math_max (Math_min totalHeight (JNum 1200)) (JNum 784))
                              (JNum (APPLICATION_PADDING * 2));
                   w = js_sub (Math_max (Math_min totalWidth (JNum 1500)) (JNum 980))
                              (JNum (APPLICATION_PADDING * 2))
               in Inr \<lparr>dimension = Some \<lparr>height = Some h, width = Some w\<rparr>,
                       position = Some \<lparr>x = Some (js_half (js_sub totalWidth w)),
                                        y = Some (js_half (js_sub totalHeight h)),
                                        z = Some (JNum 10)\<rparr>\<rparr>)))"

section \<open>Layout reconciler\<close>

text \<open>
  Modelled from the spec: \<open>selectEntriesWithValues\<close> is imported from \<open>@utils/hash\<close>,
  which is not among the sources. Following the spec, it keeps the defined
  (non-null, non-undefined) entries of an object and drops the others.
\<close>

fun keep_value :: "jsval option \<Rightarrow> jsval option" where
  "keep_value None = None"
| "keep_value (Some JUndefined) = None"
| "keep_value (Some JNull) = None"
| "keep_value (Some v) = Some v"

definition selectEntriesWithValues_position :: "position \<Rightarrow> position" where
  "selectEntriesWithValues_position p =
     \<lparr>x = keep_value (x p), y = keep_value (y p), z = keep_value (z p)\<rparr>"

definition selectEntriesWithValues_dimension :: "dimension \<Rightarrow> dimension" where
  "selectEntriesWithValues_dimension d =
     \<lparr>height = keep_value (height d), width = keep_value (width d)\<rparr>"

text \<open>Object spread \<open>{...a, ...b}\<close>, key by key: a key present in \<open>b\<close> wins.\<close>

definition over :: "'a option \<Rightarrow> 'a option \<Rightarrow> 'a option" where
  "over a b = (case b of None \<Rightarrow> a | Some v \<Rightarrow> Some v)"

definition spread_position :: "position \<Rightarrow> position \<Rightarrow> position" where
  "spread_position a b = \<lparr>x = over (x a) (x b), y = over (y a) (y b), z = over (z a) (z b)\<rparr>"

definition spread_dimension :: "dimension \<Rightarrow> dimension \<Rightarrow> dimension" where
  "spread_dimension a b = \<lparr>height = over (height a) (height b), width = over (width a) (width b)\<rparr>"

text \<open>\<open>l?.position || {}\<close> and \<open>l?.dimension || {}\<close>\<close>

definition position_or_empty :: "layout option \<Rightarrow> position" where
  "position_or_empty l =
     (case l of
        None \<Rightarrow> \<lparr>x = None, y = None, z = None\<rparr>
      | Some l' \<Rightarrow> (case position l' of None \<Rightarrow> \<lparr>x = None, y = None, z = None\<rparr> | Some p \<Rightarrow> p))"

definition dimension_or_empty :: "layout option \<Rightarrow> dimension" where
  "dimension_or_empty l =
     (case l of
        None \<Rightarrow> \<lparr>height = None, width = None\<rparr>
      | Some l' \<Rightarrow> (case dimension l' of None \<Rightarrow> \<lparr>height = None, width = None\<rparr> | Some d \<Rightarrow> d))"

text \<open>The two objects built by the spreads of \<open>updateLayout\<close>, before the comparison with the default layout.\<close>

definition mergedPosition :: "layout option \<Rightarrow> layout option \<Rightarrow> position" where
  "mergedPosition layout layoutPrev =
     spread_position (selectEntriesWithValues_position (position_or_empty layoutPrev))
                     (selectEntriesWithValues_position (position_or_empty layout))"

definition mergedDimension :: "layout option \<Rightarrow> layout option \<Rightarrow> dimension" where
  "mergedDimension layout layoutPrev =
     spread_dimension (selectEntriesWithValues_dimension (dimension_or_empty layoutPrev))
                      (selectEntriesWithValues_dimension (dimension_or_empty layout))"

text \<open>
  \<open>updateLayout\<close>. The default layout is built without argument; it always carries both a
  dimension and a position object, so the unguarded reads \<open>dimensionDefault.height\<close> and
  \<open>positionDefault.y\<close> find an object.
\<close>

definition updateLayout :: "host \<Rightarrow> layout option \<Rightarrow> layout option \<Rightarrow> error + layout" where
  "updateLayout env layout layoutPrev =
     (if layout = None \<and> layoutPrev = None then buildDefaultLayout env None
      else
        (case buildDefaultLayout env None of
           Inl e \<Rightarrow> Inl e
         | Inr dflt \<Rightarrow>
            (let position0 = mergedPosition layout layoutPrev;
                 dimension0 = mergedDimension layout layoutPrev;
                 dimensionDefault = dimension dflt;
                 positionDefault = position dflt;
                 clampH = js_gt (rd (height dimension0)) (opt_rd height dimensionDefault);
                 dimension1 = (if clampH
                               then dimension0\<lparr>height := Some (opt_rd height dimensionDefault)\<rparr>
                               else dimension0);
                 position1 = (if clampH
                              then position0\<lparr>y := Some (opt_rd y positionDefault)\<rparr>
                              else position0);
                 clampW = js_gt (rd (width dimension1)) (opt_rd width dimensionDefault);
                 dimension2 = (if clampW
                               then dimension1\<lparr>width := Some (opt_rd width dimensionDefault)\<rparr>
                               else dimension1);
                 position2 = (if clampW
                              then position1\<lparr>x := Some (opt_rd x positionDefault)\<rparr>
                              else position1)
             in Inr \<lparr>dimension = Some dimension2, position = Some position2\<rparr>)))"

section \<open>Application entries\<close>

datatype StatusEnum = OPEN | CLOSED | MINIMIZED | OtherStatus string

record state =
  status :: "StatusEnum option"

text \<open>
  Modelled from the spec: \<open>ApplicationExpansionUUIDEnum\<close> (from
  \<open>@interfaces/CommandCenterType\<close>) and \<open>ApplicationConfiguration\<close> (from
  \<open>@components/CommandCenter/constants\<close>) are not among the sources; they are the type
  parameters \<open>'u\<close> (identities, compared by \<open>===\<close>) and \<open>'c\<close> (an opaque blob).
  An optional key of an application object is absent (\<open>None\<close>) or holds a value.
\<close>

record ('u, 'c) application =
  applicationConfiguration :: "'c option"
  layout :: "layout option"
  state :: "state option"
  uuid :: 'u

section \<open>Validation pass\<close>

text \<open>The dotted paths into a layout.\<close>

datatype path = Dimension_height | Dimension_width | Position_x | Position_y | Position_z

text \<open>
  Modelled from the spec: \<open>dig\<close> and \<open>setNested\<close> are imported from \<open>@utils/hash\<close>, which
  is not among the sources. \<open>dig\<close> reads the value at a dotted path and yields \<open>undefined\<close>
  where an object or key on the way is missing; \<open>setNested\<close> writes the value at a dotted
  path of the object it is given (creating a missing intermediate object).
\<close>

fun dig :: "layout option \<Rightarrow> path \<Rightarrow> jsval" where
  "dig None k = JUndefined"
| "dig (Some l) Dimension_height = opt_rd height (dimension l)"
| "dig (Some l) Dimension_width = opt_rd width (dimension l)"
| "dig (Some l) Position_x = opt_rd x (position l)"
| "dig (Some l) Position_y = opt_rd y (position l)"
| "dig (Some l) Position_z = opt_rd z (position l)"

definition dimension_of :: "layout \<Rightarrow> dimension" where
  "dimension_of l = (case dimension l of None \<Rightarrow> \<lparr>height = None, width = None\<rparr> | Some d \<Rightarrow> d)"

definition position_of :: "layout \<Rightarrow> position" where
  "position_of l = (case position l of None \<Rightarrow> \<lparr>x = None, y = None, z = None\<rparr> | Some p \<Rightarrow> p)"

fun setNested :: "layout \<Rightarrow> path \<Rightarrow> jsval \<Rightarrow> layout" where
  "setNested l Dimension_height v = l\<lparr>dimension := Some ((dimension_of l)\<lparr>height := Some v\<rparr>)\<rparr>"
| "setNested l Dimension_width v = l\<lparr>dimension := Some ((dimension_of l)\<lparr>width := Some v\<rparr>)\<rparr>"
| "setNested l Position_x v = l\<lparr>position := Some ((position_of l)\<lparr>x := Some v\<rparr>)\<rparr>"
| "setNested l Position_y v = l\<lparr>position := Some ((position_of l)\<lparr>y := Some v\<rparr>)\<rparr>"
| "setNested l Position_z v = l\<lparr>position := Some ((position_of l)\<lparr>z := Some v\<rparr>)\<rparr>"

text \<open>The object literal \<open>layoutNew\<close> that \<open>validateLayout\<close> starts from.\<close>

definition layoutNew_init :: layout where
  "layoutNew_init =
     \<lparr>dimension = Some \<lparr>height = Some JNull, width = Some JNull\<rparr>,
      position = Some \<lparr>x = Some JNull, y = Some JNull, z = Some JNull\<rparr>\<rparr>"

text \<open>The keys visited by the \<open>forEach\<close> of \<open>validateLayout\<close>.\<close>

definition validated_keys :: "path list" where
  "validated_keys = [Dimension_height, Dimension_width, Position_x, Position_y]"

definition validateLayout :: "('u, 'c) application \<Rightarrow> ('u, 'c) application" where
  "validateLayout app =
     app\<lparr>layout := Some (foldl (\<lambda>layoutNew key.
              setNested layoutNew key
                (Math_max (js_or (dig (layout app) key) (JNum 0))
                          (dig (Some minimumLayout) key)))
            layoutNew_init validated_keys)\<rparr>"

section \<open>Application registry and lifecycle\<close>

text \<open>
  Modelled from the spec: \<open>get\<close> and \<open>set\<close> are imported from \<open>../localStorage\<close>, which is
  not among the sources. Following the spec, the store is a cell holding the value last
  written under the key \<open>LOCAL_STORAGE_KEY_APPLICATION_MANAGER\<close> with structural fidelity;
  \<open>None\<close> is the cell never written (\<open>get\<close> yields \<open>null\<close>), and a slot of the stored
  array may be \<open>null\<close> (\<open>None\<close>).
\<close>

type_synonym ('u, 'c) store = "('u, 'c) application option list option"

text \<open>\<open>(get(KEY) || [])?.filter(a => !!a)\<close>\<close>

definition stored_entries :: "('u, 'c) store \<Rightarrow> ('u, 'c) application list" where
  "stored_entries st =
     List.map_filter (\<lambda>a. a) (case st of None \<Rightarrow> [] | Some arr \<Rightarrow> arr)"

text \<open>\<open>app?.state?.status\<close>\<close>

definition status_of :: "('u, 'c) application \<Rightarrow> StatusEnum option" where
  "status_of app = (case state app of None \<Rightarrow> None | Some s \<Rightarrow> status s)"

text \<open>
  Modelled from the spec: the members of \<open>StatusEnum\<close> and of
  \<open>ApplicationExpansionUUIDEnum\<close> are declared outside the sources, so which of them are
  truthy (a string enum member is truthy unless it is the empty string, a numeric one
  unless it is \<open>0\<close>) is a parameter of the model.
\<close>

record 'u enum_truthiness =
  status_truthy :: "StatusEnum \<Rightarrow> bool"
  uuid_truthy :: "'u \<Rightarrow> bool"

text \<open>Truthiness of a filter key: an omitted key is \<open>undefined\<close>, which is falsy.\<close>

definition arg_truthy :: "('a \<Rightarrow> bool) \<Rightarrow> 'a option \<Rightarrow> bool" where
  "arg_truthy t arg = (case arg of None \<Rightarrow> False | Some v \<Rightarrow> t v)"

text \<open>
  \<open>getApplications\<close>. The tests \<open>status || uuid\<close>, \<open>!status\<close> and \<open>!uuid\<close> are tests of
  truthiness; \<open>===\<close> compares the entry's value with the filter key.
\<close>

definition getApplications ::
  "'u enum_truthiness \<Rightarrow> ('u, 'c) store \<Rightarrow> StatusEnum option \<Rightarrow> 'u option
     \<Rightarrow> ('u, 'c) application list" where
  "getApplications en st status_arg uuid_arg =
     (let arr = stored_entries st
      in if arg_truthy (status_truthy en) status_arg \<or> arg_truthy (uuid_truthy en) uuid_arg
         then filter (\<lambda>app.
                (\<not> arg_truthy (status_truthy en) status_arg \<or> status_of app = status_arg)
                \<and> (\<not> arg_truthy (uuid_truthy en) uuid_arg \<or> Some (uuid app) = uuid_arg)) arr
         else arr)"

text \<open>\<open>Array.prototype.findIndex\<close>: the first index whose element passes, else \<open>-1\<close>.\<close>

fun findIndex :: "('a \<Rightarrow> bool) \<Rightarrow> 'a list \<Rightarrow> int" where
  "findIndex P [] = - 1"
| "findIndex P (a # as) =
     (if P a then 0 else (let i = findIndex P as in if i < 0 then - 1 else i + 1))"

text \<open>\<open>apps?.[index]\<close>: reading outside the array yields \<open>undefined\<close>.\<close>

definition at_index :: "'a list \<Rightarrow> int \<Rightarrow> 'a option" where
  "at_index xs i = (if 0 \<le> i \<and> i < int (length xs) then Some (xs ! nat i) else None)"

text \<open>\<open>{...(app || {}), ...application}\<close>; \<open>uuid\<close> is a required key of \<open>application\<close>.\<close>

definition spread_application ::
  "('u, 'c) application option \<Rightarrow> ('u, 'c) application \<Rightarrow> ('u, 'c) application" where
  "spread_application app application =
     \<lparr>applicationConfiguration =
        over (case app of None \<Rightarrow> None | Some a \<Rightarrow> applicationConfiguration a)
             (applicationConfiguration application),
      layout = over (case app of None \<Rightarrow> None | Some a \<Rightarrow> layout a) (layout application),
      state = over (case app of None \<Rightarrow> None | Some a \<Rightarrow> state a) (state application),
      uuid = uuid application\<rparr>"

text \<open>
  \<open>updateApplication\<close>. The function assigns to \<open>application.layout\<close>, so the caller's object
  is part of the state: the result is the returned entry (\<open>None\<close> for \<open>undefined\<close>), the
  caller's object after the call, and the store after the call. The registry is read by
  \<open>getApplications()\<close> without filter.
\<close>

definition updateApplication ::
  "'u enum_truthiness \<Rightarrow> host \<Rightarrow> ('u, 'c) application \<Rightarrow> ('u, 'c) store
     \<Rightarrow> error + (('u, 'c) application option \<times> ('u, 'c) application \<times> ('u, 'c) store)" where
  "updateApplication en env application st =
     (let apps = getApplications en st None None
      in if status_of application = Some CLOSED
         then Inr (None, application,
                   Some (map Some (filter (\<lambda>a. uuid application \<noteq> uuid a) apps)))
         else
           (let index = findIndex (\<lambda>a. uuid application = uuid a) apps;
                app = at_index apps index
            in case updateLayout env (layout application)
                      (case app of None \<Rightarrow> None | Some a \<Rightarrow> layout a) of
                 Inl e \<Rightarrow> Inl e
               | Inr merged \<Rightarrow>
                  (let application' = application\<lparr>layout := Some merged\<rparr>;
                       appUpdated = validateLayout (spread_application app application');
                       apps' = (if index \<ge> 0 then apps[nat index := appUpdated]
                                else apps @ [appUpdated])
                   in Inr (Some appUpdated, application', Some (map Some apps')))))"

text \<open>
  A finite sequence of \<open>updateApplication\<close> calls, each in the host environment of its
  moment (the window may be resized between calls); a thrown error ends the sequence.
\<close>

fun updateApplications ::
  "'u enum_truthiness \<Rightarrow> (host \<times> ('u, 'c) application) list \<Rightarrow> ('u, 'c) store
     \<Rightarrow> error + ('u, 'c) store" where
  "updateApplications en [] st = Inr st"
| "updateApplications en ((env, application) # calls) st =
     (case updateApplication en env application st of
        Inl e \<Rightarrow> Inl e
      | Inr (r, application', st') \<Rightarrow> updateApplications en calls st')"

section \<open>Specification-side notions\<close>

text \<open>A value that is neither \<open>undefined\<close> nor \<open>null\<close>.\<close>

definition defined_value :: "jsval \<Rightarrow> bool" where
  "defined_value v = (v \<noteq> JUndefined \<and> v \<noteq> JNull)"

text \<open>
  The merge rule in the spec's words: the new value where it is defined, else the previous
  value where that is defined, else nothing.
\<close>

definition overlay :: "jsval \<Rightarrow> jsval \<Rightarrow> jsval" where
  "overlay prev new =
     (if defined_value new then new else if defined_value prev then prev else JUndefined)"

text \<open>The number that \<open>v || 0\<close> evaluates to, for a numeric, null or undefined \<open>v\<close>.\<close>

fun candidate :: "jsval \<Rightarrow> rat" where
  "candidate (JNum r) = r"
| "candidate _ = 0"

section \<open>Example values\<close>

text \<open>
  Concrete entries, caller objects and a store, with strings as identities and no
  configuration, on which the lifecycle is run below.
\<close>

text \<open>String-valued enums: every member is truthy except the empty string.\<close>

definition string_enums :: "string enum_truthiness" where
  "string_enums =
     \<lparr>status_truthy = (\<lambda>s. s \<noteq> OtherStatus []), uuid_truthy = (\<lambda>u. u \<noteq> [])\<rparr>"

definition stored_A :: "(string, unit) application" where
  "stored_A =
     \<lparr>applicationConfiguration = None,
      layout = Some \<lparr>dimension = Some \<lparr>height = Some (JNum 500), width = Some (JNum 600)\<rparr>,
                     position = Some \<lparr>x = Some (JNum 50), y = Some (JNum 60), z = Some JNull\<rparr>\<rparr>,
      state = Some \<lparr>status = Some OPEN\<rparr>,
      uuid = ''A''\<rparr>"

definition stored_B :: "(string, unit) application" where
  "stored_B =
     \<lparr>applicationConfiguration = None,
      layout = Some \<lparr>dimension = Some \<lparr>height = Some (JNum 240), width = Some (JNum 300)\<rparr>,
                     position = Some \<lparr>x = Some (JNum 0), y = Some (JNum 0), z = Some JNull\<rparr>\<rparr>,
      state = None,
      uuid = ''B''\<rparr>"

text \<open>A store holding the two entries around a \<open>null\<close> slot.\<close>

definition store_AB :: "(string, unit) store" where
  "store_AB = Some [Some stored_A, None, Some stored_B]"

text \<open>\<open>{uuid: u, state: {status: CLOSED}}\<close>, the object that \<open>closeApplication\<close> passes.\<close>

definition close_patch :: "string \<Rightarrow> (string, unit) application" where
  "close_patch u =
     \<lparr>applicationConfiguration = None, layout = None,
      state = Some \<lparr>status = Some CLOSED\<rparr>, uuid = u\<rparr>"

text \<open>\<open>{uuid: u}\<close>\<close>

definition open_patch :: "string \<Rightarrow> (string, unit) application" where
  "open_patch u = \<lparr>applicationConfiguration = None, layout = None, state = None, uuid = u\<rparr>"

text \<open>\<open>{uuid: u, layout: {dimension: {height: 100}}}\<close>\<close>

definition small_patch :: "string \<Rightarrow> (string, unit) application" where
  "small_patch u =
     \<lparr>applicationConfiguration = None,
      layout = Some \<lparr>dimension = Some \<lparr>height = Some (JNum 100), width = None\<rparr>,
                     position = None\<rparr>,
      state = None, uuid = u\<rparr>"

text \<open>The entry of \<open>''A''\<close> after an update with \<open>small_patch\<close> in a window of 800 by 1000.\<close>

definition final_A :: "(string, unit) application" where
  "final_A =
     \<lparr>applicationConfiguration = None,
      layout = Some \<lparr>dimension = Some \<lparr>height = Some (JNum 240), width = Some (JNum 968)\<rparr>,
                     position = Some \<lparr>x = Some (JNum 16), y = Some (JNum 16), z = Some JNull\<rparr>\<rparr>,
      state = None,
      uuid = ''A''\<rparr>"

text \<open>
  A previous layout taller than the default of a window of 800 by 1000, and a new layout
  that sets \<open>position.x\<close> only.
\<close>

definition tall_previous :: layout where
  "tall_previous =
     \<lparr>dimension = Some \<lparr>height = Some (JNum 1000), width = Some (JNum 600)\<rparr>,
      position = Some \<lparr>x = Some (JNum 50), y = Some (JNum 60), z = Some (JNum 10)\<rparr>\<rparr>"

definition low_previous :: layout where
  "low_previous =
     \<lparr>dimension = Some \<lparr>height = Some (JNum 500), width = Some (JNum 600)\<rparr>,
      position = Some \<lparr>x = Some (JNum 50), y = Some (JNum 60), z = Some (JNum 10)\<rparr>\<rparr>"

definition only_x :: layout where
  "only_x = \<lparr>dimension = None, position = Some \<lparr>x = Some (JNum 999), y = None, z = None\<rparr>\<rparr>"

text \<open>
  An entry whose four validated fields are all falsy or missing: \<open>null\<close>, \<open>NaN\<close>, \<open>0\<close> and
  an absent key.
\<close>

definition falsy_entry :: "string \<Rightarrow> (string, unit) application" where
  "falsy_entry u =
     \<lparr>applicationConfiguration = None,
      layout = Some \<lparr>dimension = Some \<lparr>height = Some JNull, width = Some JNaN\<rparr>,
                     position = Some \<lparr>x = Some (JNum 0), y = None, z = Some (JNum 10)\<rparr>\<rparr>,
      state = None, uuid = u\<rparr>"

section \<open>Layout geometry: properties\<close>

lemmas js_defs = js_or_def arith2_def Math_max_def Math_min_def js_sub_def js_half_def
  js_gt_def rd_def opt_rd_def

lemma buildDefaultLayout_no_arg:
  "\<exists>d p. buildDefaultLayout env None = Inr \<lparr>dimension = Some d, position = Some p\<rparr>"
  by (cases env) (simp_all add: buildDefaultLayout_def rd_def Let_def)

text \<open>In a browser window the argument never reaches the result.\<close>

lemma buildDefaultLayout_window_any_arg:
  "buildDefaultLayout (Window h w) arg = buildDefaultLayout (Window h w) None"
  by (simp add: buildDefaultLayout_def)

text \<open>Where \<open>window\<close> is not declared, a truthy viewport height makes the call throw.\<close>

lemma buildDefaultLayout_undeclared_throws:
  "truthy (rd (height v)) \<Longrightarrow> buildDefaultLayout WindowUndeclared (Some v) = Inl ReferenceError"
  by (simp add: buildDefaultLayout_def)

text \<open>
  C1: the claim is that an explicitly supplied viewport decides the layout: height
  \<open>clamp(height, 784, 1200) - 32\<close>, width \<open>clamp(width, 980, 1500) - 32\<close>, centred in the
  supplied viewport. The code does not do this. For the viewport \<open>{height: 1000, width: 1200}\<close>
  in a browser window of 800 by 1000 the claim gives the dimension 968 by 1168; the code
  yields 768 by 968, computed from the window, because the conditional expression takes the
  supplied value only as part of its test.
\<close>

theorem buildDefaultLayout_ignores_viewport:
  "buildDefaultLayout (Window 800 1000)
     (Some \<lparr>height = Some (JNum 1000), width = Some (JNum 1200)\<rparr>) =
   Inr \<lparr>dimension = Some \<lparr>height = Some (JNum 768), width = Some (JNum 968)\<rparr>,
        position = Some \<lparr>x = Some (JNum 16), y = Some (JNum 16), z = Some (JNum 10)\<rparr>\<rparr>"
  by (simp add: buildDefaultLayout_def js_defs APPLICATION_PADDING_def)

text \<open>
  C9: when no viewport is observable (\<open>typeof window\<close> is \<open>'undefined'\<close>) and
  \<open>buildDefaultLayout\<close> is called without argument, it returns a layout whose height lies in
  \<open>[784, 1200]\<close> and whose width lies in \<open>[980, 1500]\<close>, placed at
  \<open>x = (1500 - width) / 2\<close>, \<open>y = (1200 - height) / 2\<close>, \<open>z = 10\<close>.
\<close>

theorem buildDefaultLayout_fallback:
  assumes "\<not> window_defined env"
  shows "\<exists>h w. buildDefaultLayout env None =
      Inr \<lparr>dimension = Some \<lparr>height = Some (JNum h), width = Some (JNum w)\<rparr>,
           position = Some \<lparr>x = Some (JNum ((1500 - w) / 2)), y = Some (JNum ((1200 - h) / 2)),
                            z = Some (JNum 10)\<rparr>\<rparr>
      \<and> 784 \<le> h \<and> h \<le> 1200 \<and> 980 \<le> w \<and> w \<le> 1500"
  using assms by (simp add: buildDefaultLayout_def js_defs APPLICATION_PADDING_def)

theorem buildDefaultLayout_fallback_witness:
  "\<not> window_defined WindowUndeclared \<and> buildDefaultLayout WindowUndeclared None =
     Inr \<lparr>dimension = Some \<lparr>height = Some (JNum 1168), width = Some (JNum 1468)\<rparr>,
          position = Some \<lparr>x = Some (JNum 16), y = Some (JNum 16), z = Some (JNum 10)\<rparr>\<rparr>"
  using buildDefaultLayout_fallback [of WindowUndeclared]
  by (simp add: buildDefaultLayout_def js_defs APPLICATION_PADDING_def)

section \<open>Validation pass: properties\<close>

lemma max_or_candidate: "Math_max (js_or v (JNum 0)) (JNum m) = JNum (max (candidate v) m)"
  by (cases v) (auto simp: js_defs)

lemma validated_field:
  "\<exists>r. Math_max (js_or v (JNum 0)) (JNum m) = JNum r \<and> m \<le> r \<and> (\<not> truthy v \<longrightarrow> r = max 0 m)"
  by (cases v) (auto simp: js_defs)

text \<open>The layout that the fold of \<open>validateLayout\<close> builds.\<close>

lemma layout_validateLayout:
  "layout (validateLayout app) = Some
     \<lparr>dimension = Some
        \<lparr>height = Some (JNum (max (candidate (dig (layout app) Dimension_height)) 240)),
         width = Some (JNum (max (candidate (dig (layout app) Dimension_width)) 300))\<rparr>,
      position = Some
        \<lparr>x = Some (JNum (max (candidate (dig (layout app) Position_x)) 0)),
         y = Some (JNum (max (candidate (dig (layout app) Position_y)) 0)),
         z = Some JNull\<rparr>\<rparr>"
  by (simp add: validateLayout_def validated_keys_def layoutNew_init_def minimumLayout_def
      dimension_of_def position_of_def opt_rd_def rd_def max_or_candidate)

lemma dig_minimumLayout:
  "dig (Some minimumLayout) Dimension_height = JNum 240"
  "dig (Some minimumLayout) Dimension_width = JNum 300"
  "dig (Some minimumLayout) Position_x = JNum 0"
  "dig (Some minimumLayout) Position_y = JNum 0"
  by (simp_all add: minimumLayout_def opt_rd_def rd_def)

lemma dig_validateLayout:
  "dig (layout (validateLayout app)) Dimension_height =
     Math_max (js_or (dig (layout app) Dimension_height) (JNum 0)) (JNum 240)"
  "dig (layout (validateLayout app)) Dimension_width =
     Math_max (js_or (dig (layout app) Dimension_width) (JNum 0)) (JNum 300)"
  "dig (layout (validateLayout app)) Position_x =
     Math_max (js_or (dig (layout app) Position_x) (JNum 0)) (JNum 0)"
  "dig (layout (validateLayout app)) Position_y =
     Math_max (js_or (dig (layout app) Position_y) (JNum 0)) (JNum 0)"
  by (simp_all add: layout_validateLayout max_or_candidate opt_rd_def rd_def)

text \<open>
  C4: for every application entry, \<open>validateLayout\<close> sets each of \<open>dimension.height\<close>,
  \<open>dimension.width\<close>, \<open>position.x\<close>, \<open>position.y\<close> to
  \<open>Math.max(candidate || 0, minimum)\<close> with the value of \<open>minimumLayout\<close> at the same path.
  Each result is a number, at least 240, 300, 0 and 0, and it is the minimum itself when the
  candidate is missing or falsy. The function is total: it yields a result for every entry.
\<close>

theorem validateLayout_floor:
  "dig (layout (validateLayout app)) Dimension_height =
      Math_max (js_or (dig (layout app) Dimension_height) (JNum 0))
               (dig (Some minimumLayout) Dimension_height)
   \<and> dig (layout (validateLayout app)) Dimension_width =
      Math_max (js_or (dig (layout app) Dimension_width) (JNum 0))
               (dig (Some minimumLayout) Dimension_width)
   \<and> dig (layout (validateLayout app)) Position_x =
      Math_max (js_or (dig (layout app) Position_x) (JNum 0))
               (dig (Some minimumLayout) Position_x)
   \<and> dig (layout (validateLayout app)) Position_y =
      Math_max (js_or (dig (layout app) Position_y) (JNum 0))
               (dig (Some minimumLayout) Position_y)
   \<and> (\<exists>h w px py.
        dig (layout (validateLayout app)) Dimension_height = JNum h \<and> 240 \<le> h
      \<and> dig (layout (validateLayout app)) Dimension_width = JNum w \<and> 300 \<le> w
      \<and> dig (layout (validateLayout app)) Position_x = JNum px \<and> 0 \<le> px
      \<and> dig (layout (validateLayout app)) Position_y = JNum py \<and> 0 \<le> py
      \<and> (\<not> truthy (dig (layout app) Dimension_height) \<longrightarrow> h = 240)
      \<and> (\<not> truthy (dig (layout app) Dimension_width) \<longrightarrow> w = 300)
      \<and> (\<not> truthy (dig (layout app) Position_x) \<longrightarrow> px = 0)
      \<and> (\<not> truthy (dig (layout app) Position_y) \<longrightarrow> py = 0))"
proof -
  obtain h where h:
    "Math_max (js_or (dig (layout app) Dimension_height) (JNum 0)) (JNum 240) = JNum h"
    "240 \<le> h" "\<not> truthy (dig (layout app) Dimension_height) \<longrightarrow> h = 240"
    using validated_field [of "dig (layout app) Dimension_height" 240] by auto
  obtain w where w:
    "Math_max (js_or (dig (layout app) Dimension_width) (JNum 0)) (JNum 300) = JNum w"
    "300 \<le> w" "\<not> truthy (dig (layout app) Dimension_width) \<longrightarrow> w = 300"
    using validated_field [of "dig (layout app) Dimension_width" 300] by auto
  obtain px where px:
    "Math_max (js_or (dig (layout app) Position_x) (JNum 0)) (JNum 0) = JNum px"
    "0 \<le> px" "\<not> truthy (dig (layout app) Position_x) \<longrightarrow> px = 0"
    using validated_field [of "dig (layout app) Position_x" 0] by auto
  obtain py where py:
    "Math_max (js_or (dig (layout app) Position_y) (JNum 0)) (JNum 0) = JNum py"
    "0 \<le> py" "\<not> truthy (dig (layout app) Position_y) \<longrightarrow> py = 0"
    using validated_field [of "dig (layout app) Position_y" 0] by auto
  show ?thesis
    unfolding dig_minimumLayout dig_validateLayout using h w px py by simp
qed

theorem validateLayout_floor_witness:
  "\<not> truthy (dig (layout (falsy_entry ''A'')) Dimension_height)
   \<and> \<not> truthy (dig (layout (falsy_entry ''A'')) Dimension_width)
   \<and> \<not> truthy (dig (layout (falsy_entry ''A'')) Position_x)
   \<and> \<not> truthy (dig (layout (falsy_entry ''A'')) Position_y)
   \<and> layout (validateLayout (falsy_entry ''A'')) =
      Some \<lparr>dimension = Some \<lparr>height = Some (JNum 240), width = Some (JNum 300)\<rparr>,
            position = Some \<lparr>x = Some (JNum 0), y = Some (JNum 0), z = Some JNull\<rparr>\<rparr>"
  using validateLayout_floor [of "falsy_entry ''A''"]
  by (simp add: falsy_entry_def layout_validateLayout opt_rd_def rd_def)

text \<open>
  C7: applying \<open>validateLayout\<close> twice to an application entry gives the same layout (and the
  same entry) as applying it once.
\<close>

theorem validateLayout_idempotent:
  "layout (validateLayout (validateLayout app)) = layout (validateLayout app)
   \<and> validateLayout (validateLayout app) = validateLayout app"
proof -
  have "layout (validateLayout (validateLayout app)) = layout (validateLayout app)"
    apply (subst layout_validateLayout)
    apply (subst (1 2 3 4) layout_validateLayout)
    apply (subst layout_validateLayout)
    apply (simp add: opt_rd_def rd_def)
    done
  then show ?thesis
    by (simp add: validateLayout_def)
qed

theorem validateLayout_idempotent_witness:
  "validateLayout (validateLayout \<lparr>applicationConfiguration = None :: unit option,
        layout = Some \<lparr>dimension = Some \<lparr>height = Some (JNum 500), width = None\<rparr>,
                       position = None\<rparr>,
        state = None, uuid = ''A''\<rparr>) =
   \<lparr>applicationConfiguration = None,
    layout = Some \<lparr>dimension = Some \<lparr>height = Some (JNum 500), width = Some (JNum 300)\<rparr>,
                   position = Some \<lparr>x = Some (JNum 0), y = Some (JNum 0), z = Some JNull\<rparr>\<rparr>,
    state = None, uuid = ''A''\<rparr>"
proof -
  have "validateLayout \<lparr>applicationConfiguration = None :: unit option,
        layout = Some \<lparr>dimension = Some \<lparr>height = Some (JNum 500), width = None\<rparr>,
                       position = None\<rparr>,
        state = None, uuid = ''A''\<rparr> =
   \<lparr>applicationConfiguration = None,
    layout = Some \<lparr>dimension = Some \<lparr>height = Some (JNum 500), width = Some (JNum 300)\<rparr>,
                   position = Some \<lparr>x = Some (JNum 0), y = Some (JNum 0), z = Some JNull\<rparr>\<rparr>,
    state = None, uuid = ''A''\<rparr>"
    by (simp add: validateLayout_def validated_keys_def layoutNew_init_def minimumLayout_def
        dimension_of_def position_of_def js_defs)
  then show ?thesis
    using validateLayout_idempotent [of "\<lparr>applicationConfiguration = None :: unit option,
        layout = Some \<lparr>dimension = Some \<lparr>height = Some (JNum 500), width = None\<rparr>,
                       position = None\<rparr>,
        state = None, uuid = ''A''\<rparr>"]
    by simp
qed

text \<open>
  C8, as amended: \<open>validateLayout\<close> does not carry \<open>position.z\<close> over. It builds a new layout
  from a literal whose \<open>z\<close> is \<open>null\<close>, the loop rewrites only \<open>dimension.height\<close>,
  \<open>dimension.width\<close>, \<open>position.x\<close> and \<open>position.y\<close>, and so the validated layout always has
  \<open>position.z = null\<close>, whatever the caller supplied; the other keys of the entry are untouched.
\<close>

theorem validateLayout_z_null:
  "(\<exists>d p. layout (validateLayout app) = Some \<lparr>dimension = Some d, position = Some p\<rparr>
      \<and> z p = Some JNull)
   \<and> dig (layout (validateLayout app)) Position_z = JNull
   \<and> uuid (validateLayout app) = uuid app
   \<and> state (validateLayout app) = state app
   \<and> applicationConfiguration (validateLayout app) = applicationConfiguration app"
  by (simp add: layout_validateLayout opt_rd_def rd_def) (simp add: validateLayout_def)

theorem validateLayout_z_null_witness:
  "dig (layout (validateLayout \<lparr>applicationConfiguration = None :: unit option,
        layout = None, state = None, uuid = ''A''\<rparr>)) Position_z = JNull"
  using validateLayout_z_null [of "\<lparr>applicationConfiguration = None :: unit option,
        layout = None, state = None, uuid = ''A''\<rparr>"]
  by simp

text \<open>
  The claim as stated (z is left as the caller supplied it) fails for an entry whose layout
  has \<open>position.z = 10\<close>: after validation \<open>position.z\<close> is \<open>null\<close>.
\<close>

theorem validateLayout_z_counterexample:
  "dig (Some \<lparr>dimension = None,
              position = Some \<lparr>x = None, y = None, z = Some (JNum 10)\<rparr>\<rparr>) Position_z = JNum 10
   \<and> dig (layout (validateLayout
      \<lparr>applicationConfiguration = None :: unit option,
       layout = Some \<lparr>dimension = None,
                      position = Some \<lparr>x = None, y = None, z = Some (JNum 10)\<rparr>\<rparr>,
       state = None, uuid = ''A''\<rparr>)) Position_z = JNull"
  by (simp add: layout_validateLayout opt_rd_def rd_def)

section \<open>Layout reconciler: properties\<close>

lemma updateLayout_total: "\<exists>r. updateLayout env l lp = Inr r"
proof -
  obtain d p where "buildDefaultLayout env None = Inr \<lparr>dimension = Some d, position = Some p\<rparr>"
    using buildDefaultLayout_no_arg by blast
  then show ?thesis
    by (simp add: updateLayout_def Let_def)
qed

lemma rd_over_keep: "rd (over (keep_value a) (keep_value b)) = overlay (rd a) (rd b)"
  by (cases a rule: keep_value.cases; cases b rule: keep_value.cases;
      simp add: over_def rd_def overlay_def defined_value_def)

lemma position_or_empty_rd:
  "rd (sel (position_or_empty (Some l))) = opt_rd sel (position l)"
  if "sel \<lparr>x = None, y = None, z = None\<rparr> = None"
  using that by (simp add: position_or_empty_def opt_rd_def rd_def split: option.splits)

lemma dimension_or_empty_rd:
  "rd (sel (dimension_or_empty (Some l))) = opt_rd sel (dimension l)"
  if "sel \<lparr>height = None, width = None\<rparr> = None"
  using that by (simp add: dimension_or_empty_def opt_rd_def rd_def split: option.splits)

lemma merged_x:
  "rd (x (mergedPosition (Some l) (Some lp))) =
     overlay (opt_rd x (position lp)) (opt_rd x (position l))"
  by (simp add: mergedPosition_def spread_position_def selectEntriesWithValues_position_def
      rd_over_keep position_or_empty_rd)

lemma merged_y:
  "rd (y (mergedPosition (Some l) (Some lp))) =
     overlay (opt_rd y (position lp)) (opt_rd y (position l))"
  by (simp add: mergedPosition_def spread_position_def selectEntriesWithValues_position_def
      rd_over_keep position_or_empty_rd)

lemma merged_z:
  "rd (z (mergedPosition (Some l) (Some lp))) =
     overlay (opt_rd z (position lp)) (opt_rd z (position l))"
  by (simp add: mergedPosition_def spread_position_def selectEntriesWithValues_position_def
      rd_over_keep position_or_empty_rd)

lemma merged_height:
  "rd (height (mergedDimension (Some l) (Some lp))) =
     overlay (opt_rd height (dimension lp)) (opt_rd height (dimension l))"
  by (simp add: mergedDimension_def spread_dimension_def selectEntriesWithValues_dimension_def
      rd_over_keep dimension_or_empty_rd)

lemma merged_width:
  "rd (width (mergedDimension (Some l) (Some lp))) =
     overlay (opt_rd width (dimension lp)) (opt_rd width (dimension l))"
  by (simp add: mergedDimension_def spread_dimension_def selectEntriesWithValues_dimension_def
      rd_over_keep dimension_or_empty_rd)

text \<open>The result of \<open>updateLayout\<close>, field by field, when at least one layout is given.\<close>

lemma updateLayout_fields:
  assumes d: "buildDefaultLayout env None = Inr d" and ne: "\<not> (l = None \<and> lp = None)"
  shows "\<exists>r. updateLayout env l lp = Inr r
    \<and> opt_rd height (dimension r) =
        (if js_gt (rd (height (mergedDimension l lp))) (opt_rd height (dimension d))
         then opt_rd height (dimension d) else rd (height (mergedDimension l lp)))
    \<and> opt_rd width (dimension r) =
        (if js_gt (rd (width (mergedDimension l lp))) (opt_rd width (dimension d))
         then opt_rd width (dimension d) else rd (width (mergedDimension l lp)))
    \<and> opt_rd x (position r) =
        (if js_gt (rd (width (mergedDimension l lp))) (opt_rd width (dimension d))
         then opt_rd x (position d) else rd (x (mergedPosition l lp)))
    \<and> opt_rd y (position r) =
        (if js_gt (rd (height (mergedDimension l lp))) (opt_rd height (dimension d))
         then opt_rd y (position d) else rd (y (mergedPosition l lp)))
    \<and> opt_rd z (position r) = rd (z (mergedPosition l lp))"
  using ne by (auto simp add: updateLayout_def d Let_def opt_rd_def rd_def)

text \<open>
  C2: \<open>updateLayout\<close> always returns a layout, and whenever the merged \<open>dimension.height\<close>
  exceeds the height of the current default layout, the result's \<open>dimension.height\<close> is the
  default height and its \<open>position.y\<close> is the default layout's \<open>position.y\<close>; likewise for
  \<open>dimension.width\<close> and \<open>position.x\<close>.
\<close>

theorem updateLayout_clamp_coupling:
  "\<exists>r d. updateLayout env l lp = Inr r \<and> buildDefaultLayout env None = Inr d
     \<and> (js_gt (rd (height (mergedDimension l lp))) (opt_rd height (dimension d)) \<longrightarrow>
          opt_rd height (dimension r) = opt_rd height (dimension d)
          \<and> opt_rd y (position r) = opt_rd y (position d))
     \<and> (js_gt (rd (width (mergedDimension l lp))) (opt_rd width (dimension d)) \<longrightarrow>
          opt_rd width (dimension r) = opt_rd width (dimension d)
          \<and> opt_rd x (position r) = opt_rd x (position d))"
proof -
  obtain d where d: "buildDefaultLayout env None = Inr d"
    using buildDefaultLayout_no_arg by blast
  show ?thesis
  proof (cases "l = None \<and> lp = None")
    case True
    then have "updateLayout env l lp = Inr d"
      by (simp add: updateLayout_def d)
    then show ?thesis
      using d by simp
  next
    case False
    from updateLayout_fields [OF d False] obtain r where "updateLayout env l lp = Inr r"
      and "opt_rd height (dimension r) =
        (if js_gt (rd (height (mergedDimension l lp))) (opt_rd height (dimension d))
         then opt_rd height (dimension d) else rd (height (mergedDimension l lp)))"
      and "opt_rd width (dimension r) =
        (if js_gt (rd (width (mergedDimension l lp))) (opt_rd width (dimension d))
         then opt_rd width (dimension d) else rd (width (mergedDimension l lp)))"
      and "opt_rd x (position r) =
        (if js_gt (rd (width (mergedDimension l lp))) (opt_rd width (dimension d))
         then opt_rd x (position d) else rd (x (mergedPosition l lp)))"
      and "opt_rd y (position r) =
        (if js_gt (rd (height (mergedDimension l lp))) (opt_rd height (dimension d))
         then opt_rd y (position d) else rd (y (mergedPosition l lp)))"
      by blast
    then show ?thesis
      using d by simp
  qed
qed

theorem updateLayout_clamp_coupling_witness:
  "buildDefaultLayout (Window 800 1000) None =
     Inr \<lparr>dimension = Some \<lparr>height = Some (JNum 768), width = Some (JNum 968)\<rparr>,
          position = Some \<lparr>x = Some (JNum 16), y = Some (JNum 16), z = Some (JNum 10)\<rparr>\<rparr>
   \<and> js_gt (rd (height (mergedDimension
        (Some \<lparr>dimension = Some \<lparr>height = Some (JNum 2000), width = Some (JNum 2000)\<rparr>,
               position = Some \<lparr>x = Some (JNum 50), y = Some (JNum 60), z = None\<rparr>\<rparr>) None)))
        (JNum 768)
   \<and> js_gt (rd (width (mergedDimension
        (Some \<lparr>dimension = Some \<lparr>height = Some (JNum 2000), width = Some (JNum 2000)\<rparr>,
               position = Some \<lparr>x = Some (JNum 50), y = Some (JNum 60), z = None\<rparr>\<rparr>) None)))
        (JNum 968)
   \<and> updateLayout (Window 800 1000)
        (Some \<lparr>dimension = Some \<lparr>height = Some (JNum 2000), width = Some (JNum 2000)\<rparr>,
               position = Some \<lparr>x = Some (JNum 50), y = Some (JNum 60), z = None\<rparr>\<rparr>) None =
     Inr \<lparr>dimension = Some \<lparr>height = Some (JNum 768), width = Some (JNum 968)\<rparr>,
          position = Some \<lparr>x = Some (JNum 16), y = Some (JNum 16), z = None\<rparr>\<rparr>"
  using updateLayout_clamp_coupling [of "Window 800 1000"
        "Some \<lparr>dimension = Some \<lparr>height = Some (JNum 2000), width = Some (JNum 2000)\<rparr>,
               position = Some \<lparr>x = Some (JNum 50), y = Some (JNum 60), z = None\<rparr>\<rparr>" None]
  by (simp add: updateLayout_def buildDefaultLayout_def APPLICATION_PADDING_def js_defs
      mergedDimension_def mergedPosition_def spread_dimension_def spread_position_def
      selectEntriesWithValues_dimension_def selectEntriesWithValues_position_def
      dimension_or_empty_def position_or_empty_def over_def)

text \<open>
  C6, as amended: when both the new and the previous layout are present, \<open>updateLayout\<close>
  returns a layout that is, for position and dimension separately and field by field, the
  new value where it is defined (neither \<open>null\<close> nor \<open>undefined\<close>), else the previous value
  where that is defined, else \<open>undefined\<close>, except where the clamp to the default layout
  applies: when the height so merged exceeds the default height, \<open>dimension.height\<close> and
  \<open>position.y\<close> are the default layout's, and when the width so merged exceeds the default
  width, \<open>dimension.width\<close> and \<open>position.x\<close> are the default layout's. \<open>position.z\<close> always
  follows the merge. So a field absent in the new value keeps the previous value, and a
  field set in neither stays undefined, unless the clamp resets it.
\<close>

theorem updateLayout_overlay:
  "\<exists>r d. updateLayout env (Some l) (Some lp) = Inr r \<and> buildDefaultLayout env None = Inr d
     \<and> opt_rd z (position r) = overlay (opt_rd z (position lp)) (opt_rd z (position l))
     \<and> opt_rd height (dimension r) =
          (if js_gt (overlay (opt_rd height (dimension lp)) (opt_rd height (dimension l)))
                    (opt_rd height (dimension d))
           then opt_rd height (dimension d)
           else overlay (opt_rd height (dimension lp)) (opt_rd height (dimension l)))
     \<and> opt_rd y (position r) =
          (if js_gt (overlay (opt_rd height (dimension lp)) (opt_rd height (dimension l)))
                    (opt_rd height (dimension d))
           then opt_rd y (position d)
           else overlay (opt_rd y (position lp)) (opt_rd y (position l)))
     \<and> opt_rd width (dimension r) =
          (if js_gt (overlay (opt_rd width (dimension lp)) (opt_rd width (dimension l)))
                    (opt_rd width (dimension d))
           then opt_rd width (dimension d)
           else overlay (opt_rd width (dimension lp)) (opt_rd width (dimension l)))
     \<and> opt_rd x (position r) =
          (if js_gt (overlay (opt_rd width (dimension lp)) (opt_rd width (dimension l)))
                    (opt_rd width (dimension d))
           then opt_rd x (position d)
           else overlay (opt_rd x (position lp)) (opt_rd x (position l)))"
proof -
  obtain d where d: "buildDefaultLayout env None = Inr d"
    using buildDefaultLayout_no_arg by blast
  have ne: "\<not> (Some l = None \<and> Some lp = None)" by simp
  from updateLayout_fields [OF d ne] obtain r where r: "updateLayout env (Some l) (Some lp) = Inr r"
    and "opt_rd height (dimension r) =
        (if js_gt (rd (height (mergedDimension (Some l) (Some lp)))) (opt_rd height (dimension d))
         then opt_rd height (dimension d) else rd (height (mergedDimension (Some l) (Some lp))))"
    and "opt_rd width (dimension r) =
        (if js_gt (rd (width (mergedDimension (Some l) (Some lp)))) (opt_rd width (dimension d))
         then opt_rd width (dimension d) else rd (width (mergedDimension (Some l) (Some lp))))"
    and "opt_rd x (position r) =
        (if js_gt (rd (width (mergedDimension (Some l) (Some lp)))) (opt_rd width (dimension d))
         then opt_rd x (position d) else rd (x (mergedPosition (Some l) (Some lp))))"
    and "opt_rd y (position r) =
        (if js_gt (rd (height (mergedDimension (Some l) (Some lp)))) (opt_rd height (dimension d))
         then opt_rd y (position d) else rd (y (mergedPosition (Some l) (Some lp))))"
    and "opt_rd z (position r) = rd (z (mergedPosition (Some l) (Some lp)))"
    by blast
  then have "opt_rd z (position r) = overlay (opt_rd z (position lp)) (opt_rd z (position l))
     \<and> opt_rd height (dimension r) =
          (if js_gt (overlay (opt_rd height (dimension lp)) (opt_rd height (dimension l)))
                    (opt_rd height (dimension d))
           then opt_rd height (dimension d)
           else overlay (opt_rd height (dimension lp)) (opt_rd height (dimension l)))
     \<and> opt_rd y (position r) =
          (if js_gt (overlay (opt_rd height (dimension lp)) (opt_rd height (dimension l)))
                    (opt_rd height (dimension d))
           then opt_rd y (position d)
           else overlay (opt_rd y (position lp)) (opt_rd y (position l)))
     \<and> opt_rd width (dimension r) =
          (if js_gt (overlay (opt_rd width (dimension lp)) (opt_rd width (dimension l)))
                    (opt_rd width (dimension d))
           then opt_rd width (dimension d)
           else overlay (opt_rd width (dimension lp)) (opt_rd width (dimension l)))
     \<and> opt_rd x (position r) =
          (if js_gt (overlay (opt_rd width (dimension lp)) (opt_rd width (dimension l)))
                    (opt_rd width (dimension d))
           then opt_rd x (position d)
           else overlay (opt_rd x (position lp)) (opt_rd x (position l)))"
    by (simp only: merged_x merged_y merged_z merged_height merged_width simp_thms)
  with r d show ?thesis by blast
qed

text \<open>
  In a window of 800 by 1000 (default layout 768 by 968 at 16, 16): over a previous layout
  of height 500 the update of \<open>position.x\<close> keeps \<open>y = 60\<close>; over one of height 1000 the
  height clamp applies and \<open>y\<close> is the default's 16.
\<close>

theorem updateLayout_overlay_witness:
  "updateLayout (Window 800 1000) (Some only_x) (Some low_previous) =
     Inr \<lparr>dimension = Some \<lparr>height = Some (JNum 500), width = Some (JNum 600)\<rparr>,
          position = Some \<lparr>x = Some (JNum 999), y = Some (JNum 60), z = Some (JNum 10)\<rparr>\<rparr>
   \<and> updateLayout (Window 800 1000) (Some only_x) (Some tall_previous) =
     Inr \<lparr>dimension = Some \<lparr>height = Some (JNum 768), width = Some (JNum 600)\<rparr>,
          position = Some \<lparr>x = Some (JNum 999), y = Some (JNum 16), z = Some (JNum 10)\<rparr>\<rparr>"
proof -
  have low: "updateLayout (Window 800 1000) (Some only_x) (Some low_previous) =
     Inr \<lparr>dimension = Some \<lparr>height = Some (JNum 500), width = Some (JNum 600)\<rparr>,
          position = Some \<lparr>x = Some (JNum 999), y = Some (JNum 60), z = Some (JNum 10)\<rparr>\<rparr>"
    by (simp add: only_x_def low_previous_def
        updateLayout_def buildDefaultLayout_def APPLICATION_PADDING_def js_defs
        mergedDimension_def mergedPosition_def spread_dimension_def spread_position_def
        selectEntriesWithValues_dimension_def selectEntriesWithValues_position_def
        dimension_or_empty_def position_or_empty_def over_def)
  have tall: "updateLayout (Window 800 1000) (Some only_x) (Some tall_previous) =
     Inr \<lparr>dimension = Some \<lparr>height = Some (JNum 768), width = Some (JNum 600)\<rparr>,
          position = Some \<lparr>x = Some (JNum 999), y = Some (JNum 16), z = Some (JNum 10)\<rparr>\<rparr>"
    by (simp add: only_x_def tall_previous_def
        updateLayout_def buildDefaultLayout_def APPLICATION_PADDING_def js_defs
        mergedDimension_def mergedPosition_def spread_dimension_def spread_position_def
        selectEntriesWithValues_dimension_def selectEntriesWithValues_position_def
        dimension_or_empty_def position_or_empty_def over_def)
  from updateLayout_overlay [of "Window 800 1000" only_x low_previous]
    updateLayout_overlay [of "Window 800 1000" only_x tall_previous]
  show ?thesis
    by (simp only: low tall)
qed

text \<open>
  The claim as stated (a field absent in the new value retains the previous value, as when
  updating only \<open>position.x\<close> leaves \<open>position.y\<close> at its previous value) fails where the
  previous height exceeds the current default height: the new layout sets only
  \<open>position.x\<close>, the previous one has \<open>position.y = 60\<close>, and the result has
  \<open>position.y = 16\<close>.
\<close>

theorem updateLayout_overlay_counterexample:
  "opt_rd y (position only_x) = JUndefined
   \<and> opt_rd y (position tall_previous) = JNum 60
   \<and> updateLayout (Window 800 1000) (Some only_x) (Some tall_previous) =
        Inr \<lparr>dimension = Some \<lparr>height = Some (JNum 768), width = Some (JNum 600)\<rparr>,
             position = Some \<lparr>x = Some (JNum 999), y = Some (JNum 16), z = Some (JNum 10)\<rparr>\<rparr>"
  by (simp add: only_x_def tall_previous_def
      updateLayout_def buildDefaultLayout_def APPLICATION_PADDING_def js_defs
      mergedDimension_def mergedPosition_def spread_dimension_def spread_position_def
      selectEntriesWithValues_dimension_def selectEntriesWithValues_position_def
      dimension_or_empty_def position_or_empty_def over_def)

section \<open>Registry and lifecycle: properties\<close>

lemma findIndex_lower: "- 1 \<le> findIndex P xs"
  by (induction xs) (auto simp: Let_def)

lemma findIndex_upper: "findIndex P xs < int (length xs)"
  by (induction xs) (auto simp: Let_def)

lemma findIndex_none: "(findIndex P xs < 0) = (\<forall>a \<in> set xs. \<not> P a)"
  using findIndex_lower [of P] by (induction xs) (auto simp: Let_def)

lemma findIndex_holds: "0 \<le> findIndex P xs \<Longrightarrow> P (xs ! nat (findIndex P xs))"
proof (induction xs)
  case Nil
  then show ?case by simp
next
  case (Cons a as)
  show ?case
  proof (cases "P a")
    case True
    then show ?thesis by simp
  next
    case False
    with Cons.prems have nn: "0 \<le> findIndex P as"
      by (simp add: Let_def split: if_splits)
    with Cons.IH have "P (as ! nat (findIndex P as))" by simp
    moreover from nn have "nat (findIndex P as + 1) = Suc (nat (findIndex P as))" by simp
    ultimately show ?thesis using False nn by (simp add: Let_def)
  qed
qed

text \<open>Reading the array at the index found is the first element that passes, if any.\<close>

lemma at_index_findIndex: "at_index xs (findIndex P xs) = List.find P xs"
proof (induction xs)
  case Nil
  then show ?case by (simp add: at_index_def)
next
  case (Cons a as)
  show ?case
  proof (cases "P a")
    case True
    then show ?thesis by (simp add: at_index_def)
  next
    case False
    show ?thesis
    proof (cases "findIndex P as < 0")
      case True
      with Cons.IH False show ?thesis
        by (simp add: at_index_def Let_def split: if_splits)
    next
      case nn: False
      then have "nat (findIndex P as + 1) = Suc (nat (findIndex P as))" by simp
      with Cons.IH False nn show ?thesis
        using findIndex_upper [of P as] by (simp add: at_index_def Let_def)
    qed
  qed
qed

lemma find_absent: "\<forall>a \<in> set xs. \<not> P a \<Longrightarrow> List.find P xs = None"
  by (simp add: find_None_iff)

lemma stored_entries_written: "stored_entries (Some (map Some xs)) = xs"
  by (induction xs) (simp_all add: stored_entries_def List.map_filter_simps)

lemma stored_entries_appended: "stored_entries (Some (map Some xs @ [Some a])) = xs @ [a]"
  using stored_entries_written [of "xs @ [a]"] by simp

lemma getApplications_all: "getApplications en st None None = stored_entries st"
  by (simp add: getApplications_def arg_truthy_def)

lemma getApplications_uuid:
  "uuid_truthy en u \<Longrightarrow>
   getApplications en st None (Some u) = filter (\<lambda>a. uuid a = u) (stored_entries st)"
  by (simp add: getApplications_def arg_truthy_def)

lemma uuid_validateLayout: "uuid (validateLayout a) = uuid a"
  by (simp add: validateLayout_def)

lemma uuid_spread_application: "uuid (spread_application app a) = uuid a"
  by (simp add: spread_application_def)

lemma layout_validate_spread:
  "layout (validateLayout (spread_application app (p\<lparr>layout := Some m\<rparr>))) =
   layout (validateLayout (p\<lparr>layout := Some m\<rparr>))"
  by (simp add: validateLayout_def spread_application_def over_def)

lemma distinct_filter_key:
  "distinct (map f xs) \<Longrightarrow> length (filter (\<lambda>a. f a = k) xs) \<le> Suc 0"
proof (induction xs)
  case Nil
  then show ?case by simp
next
  case (Cons a as)
  show ?case
  proof (cases "f a = k")
    case True
    with Cons.prems have "k \<notin> f ` set as" by simp
    then have "\<forall>b \<in> set as. f b \<noteq> k" by blast
    then have "filter (\<lambda>a. f a = k) as = []" by (simp add: filter_empty_conv)
    with True show ?thesis by simp
  next
    case False
    with Cons show ?thesis by simp
  qed
qed

text \<open>What a call that does not close computes, without the index arithmetic.\<close>

lemma updateApplication_open:
  assumes "status_of p \<noteq> Some CLOSED"
    and "updateLayout env (layout p)
           (case List.find (\<lambda>a. uuid p = uuid a) (stored_entries st) of
              None \<Rightarrow> None | Some a \<Rightarrow> layout a) = Inr m"
  shows "updateApplication en env p st =
     Inr (Some (validateLayout (spread_application
                  (List.find (\<lambda>a. uuid p = uuid a) (stored_entries st)) (p\<lparr>layout := Some m\<rparr>))),
          p\<lparr>layout := Some m\<rparr>,
          Some (map Some
            (if 0 \<le> findIndex (\<lambda>a. uuid p = uuid a) (stored_entries st)
             then (stored_entries st)[nat (findIndex (\<lambda>a. uuid p = uuid a) (stored_entries st)) :=
                    validateLayout (spread_application
                      (List.find (\<lambda>a. uuid p = uuid a) (stored_entries st))
                      (p\<lparr>layout := Some m\<rparr>))]
             else stored_entries st @
                    [validateLayout (spread_application
                      (List.find (\<lambda>a. uuid p = uuid a) (stored_entries st))
                      (p\<lparr>layout := Some m\<rparr>))])))"
  using assms
  by (simp add: updateApplication_def getApplications_all at_index_findIndex Let_def)

lemma updateApplication_when_closed:
  assumes "status_of p = Some CLOSED"
  shows "updateApplication en env p st =
     Inr (None, p, Some (map Some (filter (\<lambda>a. uuid p \<noteq> uuid a) (stored_entries st))))"
  using assms by (simp add: updateApplication_def getApplications_all)

text \<open>A call that does not close, for an identity that the registry does not hold.\<close>

lemma updateApplication_fresh:
  assumes nc: "status_of p \<noteq> Some CLOSED"
    and absent: "\<forall>a \<in> set (stored_entries st). uuid a \<noteq> uuid p"
    and m: "updateLayout env (layout p) None = Inr m"
  shows "updateApplication en env p st =
     Inr (Some (validateLayout (spread_application None (p\<lparr>layout := Some m\<rparr>))),
          p\<lparr>layout := Some m\<rparr>,
          Some (map Some (stored_entries st @
                 [validateLayout (spread_application None (p\<lparr>layout := Some m\<rparr>))])))"
proof -
  from absent have f: "List.find (\<lambda>a. uuid p = uuid a) (stored_entries st) = None"
    by (intro find_absent) auto
  from absent have "\<forall>a \<in> set (stored_entries st). \<not> uuid p = uuid a" by auto
  then have i: "\<not> 0 \<le> findIndex (\<lambda>a. uuid p = uuid a) (stored_entries st)"
    using findIndex_none [of "\<lambda>a. uuid p = uuid a" "stored_entries st"] by simp
  from m have "updateLayout env (layout p)
           (case List.find (\<lambda>a. uuid p = uuid a) (stored_entries st) of
              None \<Rightarrow> None | Some a \<Rightarrow> layout a) = Inr m"
    by (simp add: f)
  from updateApplication_open [OF nc this] show ?thesis
    by (simp add: f i)
qed

text \<open>One call keeps the identities of the registry pairwise different, and returns.\<close>

lemma updateApplication_distinct:
  assumes "distinct (map uuid (stored_entries st))"
  shows "\<exists>r p' st'. updateApplication en env p st = Inr (r, p', st')
           \<and> distinct (map uuid (stored_entries st'))"
proof (cases "status_of p = Some CLOSED")
  case True
  from assms have "distinct (map uuid (filter (\<lambda>a. uuid p \<noteq> uuid a) (stored_entries st)))"
    by (simp add: distinct_map_filter)
  with True show ?thesis
    by (simp add: updateApplication_when_closed stored_entries_written)
next
  case False
  let ?apps = "stored_entries st"
  let ?P = "\<lambda>a. uuid p = uuid a"
  obtain m where m: "updateLayout env (layout p)
           (case List.find ?P ?apps of None \<Rightarrow> None | Some a \<Rightarrow> layout a) = Inr m"
    using updateLayout_total by blast
  let ?e = "validateLayout (spread_application (List.find ?P ?apps) (p\<lparr>layout := Some m\<rparr>))"
  have ue: "uuid ?e = uuid p"
    by (simp add: uuid_validateLayout uuid_spread_application)
  show ?thesis
  proof (cases "0 \<le> findIndex ?P ?apps")
    case True
    then have "uuid (?apps ! nat (findIndex ?P ?apps)) = uuid p"
      using findIndex_holds [of ?P ?apps] by simp
    moreover have "nat (findIndex ?P ?apps) < length ?apps"
      using True findIndex_upper [of ?P ?apps] by simp
    ultimately have "map uuid (?apps[nat (findIndex ?P ?apps) := ?e]) = map uuid ?apps"
      using ue by (simp add: map_update list_update_same_conv)
    with assms True show ?thesis
      by (simp add: updateApplication_open [OF False m] stored_entries_written)
  next
    case neg: False
    then have "\<forall>a \<in> set ?apps. uuid a \<noteq> uuid p"
      using findIndex_none [of ?P ?apps] by auto
    then have "uuid p \<notin> set (map uuid ?apps)" by auto
    with assms neg ue show ?thesis
      by (simp add: updateApplication_open [OF False m] stored_entries_appended)
  qed
qed

text \<open>
  C3: starting from a registry with at most one entry per uuid (the empty registry is one),
  every finite sequence of \<open>updateApplication\<close> calls runs to its end and leaves a registry
  with at most one entry per uuid: for every uuid \<open>X\<close> the registry holds at most one entry
  of uuid \<open>X\<close>, and for every uuid \<open>X\<close> that is truthy (as the filter of \<open>getApplications\<close>
  requires of its key) \<open>getApplications({uuid: X})\<close> returns at most one entry.
\<close>

theorem updateApplications_unique_uuid:
  assumes "distinct (map uuid (getApplications en st None None))"
  shows "\<exists>st'. updateApplications en calls st = Inr st'
           \<and> distinct (map uuid (getApplications en st' None None))
           \<and> (\<forall>X. length (filter (\<lambda>a. uuid a = X) (getApplications en st' None None)) \<le> 1)
           \<and> (\<forall>X. uuid_truthy en X \<longrightarrow> length (getApplications en st' None (Some X)) \<le> 1)"
  using assms
proof (induction calls arbitrary: st)
  case Nil
  then show ?case
    using distinct_filter_key [of uuid "stored_entries st"]
    by (simp add: getApplications_all getApplications_uuid)
next
  case (Cons c calls)
  obtain env p where c: "c = (env, p)" by (cases c)
  from Cons.prems obtain r p' st1 where
    s: "updateApplication en env p st = Inr (r, p', st1)"
    and d: "distinct (map uuid (stored_entries st1))"
    using updateApplication_distinct [of st en env p] by (auto simp: getApplications_all)
  from d have "distinct (map uuid (getApplications en st1 None None))"
    by (simp add: getApplications_all)
  from Cons.IH [OF this] show ?case
    by (simp add: c s)
qed

theorem updateApplications_unique_uuid_witness:
  "distinct (map uuid (getApplications string_enums (None :: (string, unit) store) None None))
   \<and> uuid_truthy string_enums ''A''
   \<and> updateApplications string_enums
        [(Window 800 1000, open_patch ''A''), (WindowUndeclared, open_patch ''B''),
         (Window 800 1000, small_patch ''A''), (WindowUndeclared, close_patch ''B'')]
        None = Inr (Some [Some final_A])
   \<and> getApplications string_enums (Some [Some final_A]) None (Some ''A'') = [final_A]"
  using updateApplications_unique_uuid [of string_enums None
        "[(Window 800 1000, open_patch ''A''), (WindowUndeclared, open_patch ''B''),
         (Window 800 1000, small_patch ''A''), (WindowUndeclared, close_patch ''B'')]"]
  by (simp add: string_enums_def open_patch_def small_patch_def close_patch_def final_A_def
      updateApplication_def getApplications_def arg_truthy_def stored_entries_def
      List.map_filter_simps status_of_def at_index_def spread_application_def over_def Let_def
      updateLayout_def buildDefaultLayout_def APPLICATION_PADDING_def js_defs
      mergedDimension_def mergedPosition_def spread_dimension_def spread_position_def
      selectEntriesWithValues_dimension_def selectEntriesWithValues_position_def
      dimension_or_empty_def position_or_empty_def
      validateLayout_def validated_keys_def layoutNew_init_def minimumLayout_def
      dimension_of_def position_of_def)

text \<open>
  C5: a call with \<open>state.status = CLOSED\<close> returns \<open>undefined\<close>, leaves the caller's object
  as it was, and stores the entries without those of the given uuid: afterwards the
  registry holds no entry of that uuid, and \<open>getApplications({uuid})\<close> is empty for a truthy
  uuid; when no entry had that uuid the entries are the same as before. A following call
  for the same uuid that does not close appends an entry, and that entry is the one the
  same call produces on the empty registry: nothing of the closed entry's layout is left.
\<close>

theorem updateApplication_close:
  assumes c: "status_of c = Some CLOSED" and p: "status_of p \<noteq> Some CLOSED"
    and u: "uuid p = uuid c"
  shows "\<exists>st'. updateApplication en env c st = Inr (None, c, st')
     \<and> getApplications en st' None None =
         filter (\<lambda>a. uuid a \<noteq> uuid c) (getApplications en st None None)
     \<and> filter (\<lambda>a. uuid a = uuid c) (getApplications en st' None None) = []
     \<and> (uuid_truthy en (uuid c) \<longrightarrow> getApplications en st' None (Some (uuid c)) = [])
     \<and> (filter (\<lambda>a. uuid a = uuid c) (getApplications en st None None) = [] \<longrightarrow>
          getApplications en st' None None = getApplications en st None None)
     \<and> (\<exists>e p'. updateApplication en env' p None = Inr (Some e, p', Some [Some e])
           \<and> updateApplication en env' p st' =
               Inr (Some e, p', Some (map Some (getApplications en st' None None @ [e]))))"
proof -
  let ?rest = "filter (\<lambda>a. uuid a \<noteq> uuid c) (stored_entries st)"
  let ?st' = "Some (map Some ?rest)"
  have "filter (\<lambda>a. uuid c \<noteq> uuid a) (stored_entries st) = ?rest"
    by (rule filter_cong) auto
  then have run: "updateApplication en env c st = Inr (None, c, ?st')"
    using updateApplication_when_closed [OF c, of en env st] by simp
  have entries: "stored_entries ?st' = ?rest"
    by (rule stored_entries_written)
  have gone: "filter (\<lambda>a. uuid a = uuid c) (stored_entries ?st') = []"
    unfolding entries by (auto simp add: filter_empty_conv)
  have noop: "stored_entries ?st' = stored_entries st"
    if "filter (\<lambda>a. uuid a = uuid c) (stored_entries st) = []"
    unfolding entries using that by (auto simp add: filter_empty_conv filter_id_conv)
  obtain m where m: "updateLayout env' (layout p) None = Inr m"
    using updateLayout_total by blast
  let ?e = "validateLayout (spread_application None (p\<lparr>layout := Some m\<rparr>))"
  have "\<forall>a \<in> set (stored_entries (None :: ('a, 'b) store)). uuid a \<noteq> uuid p"
    by (simp add: stored_entries_def List.map_filter_simps)
  from updateApplication_fresh [OF p this m]
  have fresh0: "updateApplication en env' p None =
      Inr (Some ?e, p\<lparr>layout := Some m\<rparr>, Some [Some ?e])"
    by (simp add: stored_entries_def List.map_filter_simps)
  have "\<forall>a \<in> set (stored_entries ?st'). uuid a \<noteq> uuid p"
    unfolding entries using u by auto
  from updateApplication_fresh [OF p this m]
  have fresh1: "updateApplication en env' p ?st' =
      Inr (Some ?e, p\<lparr>layout := Some m\<rparr>, Some (map Some (stored_entries ?st' @ [?e])))" .
  show ?thesis
    unfolding getApplications_all
  proof (intro exI [of _ ?st'] conjI impI)
    show "updateApplication en env c st = Inr (None, c, ?st')" by (rule run)
    show "stored_entries ?st' = ?rest" by (rule entries)
    show "filter (\<lambda>a. uuid a = uuid c) (stored_entries ?st') = []" by (rule gone)
    show "getApplications en ?st' None (Some (uuid c)) = []" if "uuid_truthy en (uuid c)"
      using that gone by (simp add: getApplications_uuid)
    show "stored_entries ?st' = stored_entries st"
      if "filter (\<lambda>a. uuid a = uuid c) (stored_entries st) = []"
      using that by (rule noop)
    show "\<exists>e p'. updateApplication en env' p None = Inr (Some e, p', Some [Some e])
           \<and> updateApplication en env' p ?st' =
               Inr (Some e, p', Some (map Some (stored_entries ?st' @ [e])))"
      using fresh0 fresh1 by blast
  qed
qed

theorem updateApplication_close_witness:
  "status_of (close_patch ''A'') = Some CLOSED
   \<and> status_of (open_patch ''A'') \<noteq> Some CLOSED
   \<and> uuid (open_patch ''A'') = uuid (close_patch ''A'')
   \<and> uuid_truthy string_enums (uuid (close_patch ''A''))
   \<and> updateApplication string_enums (Window 800 1000) (close_patch ''A'') store_AB =
        Inr (None, close_patch ''A'', Some [Some stored_B])
   \<and> getApplications string_enums (Some [Some stored_B]) None (Some ''A'') = []
   \<and> updateApplication string_enums WindowUndeclared (open_patch ''A'') (Some [Some stored_B]) =
        Inr (Some \<lparr>applicationConfiguration = None,
                   layout = Some
                     \<lparr>dimension = Some \<lparr>height = Some (JNum 1168), width = Some (JNum 1468)\<rparr>,
                      position = Some \<lparr>x = Some (JNum 16), y = Some (JNum 16), z = Some JNull\<rparr>\<rparr>,
                   state = None, uuid = ''A''\<rparr>,
             \<lparr>applicationConfiguration = None,
              layout = Some
                \<lparr>dimension = Some \<lparr>height = Some (JNum 1168), width = Some (JNum 1468)\<rparr>,
                 position = Some \<lparr>x = Some (JNum 16), y = Some (JNum 16), z = Some (JNum 10)\<rparr>\<rparr>,
              state = None, uuid = ''A''\<rparr>,
             Some [Some stored_B,
                   Some \<lparr>applicationConfiguration = None,
                         layout = Some
                           \<lparr>dimension = Some \<lparr>height = Some (JNum 1168), width = Some (JNum 1468)\<rparr>,
                            position = Some \<lparr>x = Some (JNum 16), y = Some (JNum 16),
                                             z = Some JNull\<rparr>\<rparr>,
                         state = None, uuid = ''A''\<rparr>])
   \<and> filter (\<lambda>a. uuid a = ''C'') (getApplications string_enums store_AB None None) = []
   \<and> updateApplication string_enums (Window 800 1000) (close_patch ''C'') store_AB =
        Inr (None, close_patch ''C'', Some [Some stored_A, Some stored_B])"
  using updateApplication_close [of "close_patch ''A''" "open_patch ''A''" string_enums
      "Window 800 1000" store_AB WindowUndeclared]
    updateApplication_close [of "close_patch ''C''" "open_patch ''C''" string_enums
      "Window 800 1000" store_AB WindowUndeclared]
  by (simp add: string_enums_def close_patch_def open_patch_def store_AB_def stored_A_def
      stored_B_def
      updateApplication_def getApplications_def arg_truthy_def stored_entries_def
      List.map_filter_simps status_of_def at_index_def spread_application_def over_def Let_def
      updateLayout_def buildDefaultLayout_def APPLICATION_PADDING_def js_defs
      mergedDimension_def mergedPosition_def spread_dimension_def spread_position_def
      selectEntriesWithValues_dimension_def selectEntriesWithValues_position_def
      dimension_or_empty_def position_or_empty_def
      validateLayout_def validated_keys_def layoutNew_init_def minimumLayout_def
      dimension_of_def position_of_def)

text \<open>
  C10: a call that does not close overwrites the \<open>layout\<close> key of the caller's object: after
  the call the object holds the layout that \<open>updateLayout\<close> computed from the object's own
  layout and the layout of the stored entry of the same uuid, as it was before validation;
  the returned entry holds the validated layout.
\<close>

theorem updateApplication_mutates_patch:
  assumes "status_of p \<noteq> Some CLOSED"
  shows "\<exists>m e st'.
      updateLayout env (layout p)
        (case List.find (\<lambda>a. uuid p = uuid a) (getApplications en st None None) of
           None \<Rightarrow> None | Some a \<Rightarrow> layout a) = Inr m
    \<and> updateApplication en env p st = Inr (Some e, p\<lparr>layout := Some m\<rparr>, st')
    \<and> layout e = layout (validateLayout (p\<lparr>layout := Some m\<rparr>))"
proof -
  obtain m where m: "updateLayout env (layout p)
        (case List.find (\<lambda>a. uuid p = uuid a) (stored_entries st) of
           None \<Rightarrow> None | Some a \<Rightarrow> layout a) = Inr m"
    using updateLayout_total by blast
  show ?thesis
    unfolding getApplications_all
    using m updateApplication_open [OF assms m] layout_validate_spread by blast
qed

theorem updateApplication_mutates_patch_witness:
  "status_of (small_patch ''A'') \<noteq> Some CLOSED
   \<and> updateApplication string_enums WindowUndeclared (small_patch ''A'') None =
        Inr (Some \<lparr>applicationConfiguration = None,
                   layout = Some
                     \<lparr>dimension = Some \<lparr>height = Some (JNum 240), width = Some (JNum 300)\<rparr>,
                      position = Some \<lparr>x = Some (JNum 0), y = Some (JNum 0), z = Some JNull\<rparr>\<rparr>,
                   state = None, uuid = ''A''\<rparr>,
             \<lparr>applicationConfiguration = None,
              layout = Some
                \<lparr>dimension = Some \<lparr>height = Some (JNum 100), width = None\<rparr>,
                 position = Some \<lparr>x = None, y = None, z = None\<rparr>\<rparr>,
              state = None, uuid = ''A''\<rparr>,
             Some [Some \<lparr>applicationConfiguration = None,
                         layout = Some
                           \<lparr>dimension = Some \<lparr>height = Some (JNum 240), width = Some (JNum 300)\<rparr>,
                            position = Some \<lparr>x = Some (JNum 0), y = Some (JNum 0),
                                             z = Some JNull\<rparr>\<rparr>,
                         state = None, uuid = ''A''\<rparr>])
   \<and> small_patch ''A'' \<noteq>
        \<lparr>applicationConfiguration = None,
         layout = Some
           \<lparr>dimension = Some \<lparr>height = Some (JNum 100), width = None\<rparr>,
            position = Some \<lparr>x = None, y = None, z = None\<rparr>\<rparr>,
         state = None, uuid = ''A''\<rparr>"
  using updateApplication_mutates_patch [of "small_patch ''A''" WindowUndeclared string_enums None]
  by (simp add: small_patch_def string_enums_def
      updateApplication_def getApplications_def arg_truthy_def stored_entries_def
      List.map_filter_simps status_of_def at_index_def spread_application_def over_def Let_def
      updateLayout_def buildDefaultLayout_def APPLICATION_PADDING_def js_defs
      mergedDimension_def mergedPosition_def spread_dimension_def spread_position_def
      selectEntriesWithValues_dimension_def selectEntriesWithValues_position_def
      dimension_or_empty_def position_or_empty_def
      validateLayout_def validated_keys_def layoutNew_init_def minimumLayout_def
      dimension_of_def position_of_def)

end
